theory Spec2Isabelle
  imports Complex_Main "HOL-Library.AList"
begin

section \<open>Python values shared by both modules\<close>

text \<open>
  Exceptions raised by \<^verbatim>\<open>datacube_stats/output_drivers.py\<close> and
  \<^verbatim>\<open>datacube_stats/tasks.py\<close>.  \<open>StatsOutputError\<close> and
  \<open>OutputFileAlreadyExists\<close> are the two exception classes the module defines
  (the first carries the leading words of its message, the second the path); the others
  are Python built-ins the code can raise.  \<open>OSError\<close> stands for the built-in and
  its subclasses (\<^verbatim>\<open>FileNotFoundError\<close>, \<^verbatim>\<open>FileExistsError\<close>,
  \<^verbatim>\<open>NotADirectoryError\<close>, \<^verbatim>\<open>IsADirectoryError\<close>), told apart by the error
  number; \<^verbatim>\<open>except OSError\<close> catches them all.
\<close>

datatype errno = ENOENT | EEXIST | ENOTDIR | EISDIR

datatype py_error =
    StatsOutputError string
  | OutputFileAlreadyExists string
  | AssertionError
  | KeyError string
  | ValueError string
  | UnboundLocalError string
  | IndexError
  | TypeError
  | NotImplementedError
  | RuntimeError
  | AttributeError
  | OSError errno string

subsection \<open>\<^verbatim>\<open>str.replace\<close> and the \<^verbatim>\<open>in\<close> test on strings\<close>

text \<open>
  \<^verbatim>\<open>s.replace(old, new)\<close>: scans from the left, replaces every non-overlapping
  occurrence of \<open>old\<close>.  With an empty \<open>old\<close> Python puts \<open>new\<close> around every
  character.
\<close>

function (sequential) str_replace :: "string \<Rightarrow> string \<Rightarrow> string \<Rightarrow> string" where
  "str_replace old new [] = (if old = [] then new else [])"
| "str_replace old new (c # cs) =
     (if old = [] then new @ concat (map (\<lambda>d. d # new) (c # cs))
      else if take (length old) (c # cs) = old
           then new @ str_replace old new (drop (length old) (c # cs))
           else c # str_replace old new cs)"
  by pat_completeness auto
termination
  by (relation "measure (\<lambda>(old, new, s). length s)") (auto simp: Suc_diff_le)

text \<open>\<^verbatim>\<open>sub in s\<close> for strings: \<open>sub\<close> occurs somewhere in \<open>s\<close>.\<close>

fun str_contains :: "string \<Rightarrow> string \<Rightarrow> bool" where
  "str_contains sub [] = (sub = [])"
| "str_contains sub (c # cs) =
     (take (length sub) (c # cs) = sub \<or> str_contains sub cs)"

section \<open>The driver registry (\<^verbatim>\<open>RegisterDriver\<close>, \<^verbatim>\<open>OUTPUT_DRIVERS\<close>)\<close>

text \<open>
  The classes of \<^verbatim>\<open>output_drivers.py\<close> whose metaclass is
  \<^verbatim>\<open>RegisterDriver\<close>: the base class \<^verbatim>\<open>OutputDriver\<close> and its five subclasses.
\<close>

datatype driver_class =
    OutputDriver
  | NetCDFCFOutputDriver
  | GeotiffOutputDriver
  | ENVIBILOutputDriver
  | TestOutputDriver
  | XarrayOutputDriver

fun class_name :: "driver_class \<Rightarrow> string" where
  "class_name OutputDriver = ''OutputDriver''"
| "class_name NetCDFCFOutputDriver = ''NetCDFCFOutputDriver''"
| "class_name GeotiffOutputDriver = ''GeotiffOutputDriver''"
| "class_name ENVIBILOutputDriver = ''ENVIBILOutputDriver''"
| "class_name TestOutputDriver = ''TestOutputDriver''"
| "class_name XarrayOutputDriver = ''XarrayOutputDriver''"

text \<open>
  \<^verbatim>\<open>RegisterDriver.__new__\<close>, as its effect on the registry:
  \<^verbatim>\<open>name = cls.__name__.replace('OutputDriver', ''); if name: OUTPUT_DRIVERS[name] = cls\<close>.
\<close>

definition RegisterDriver ::
  "driver_class \<Rightarrow> (string \<rightharpoonup> driver_class) \<Rightarrow> (string \<rightharpoonup> driver_class)" where
  "RegisterDriver cls registry =
     (let name = str_replace ''OutputDriver'' '''' (class_name cls)
      in if name \<noteq> [] then registry(name \<mapsto> cls) else registry)"

text \<open>The class statements of the module, in the order they are executed.\<close>

definition module_classes :: "driver_class list" where
  "module_classes =
     [OutputDriver, NetCDFCFOutputDriver, GeotiffOutputDriver, ENVIBILOutputDriver,
      TestOutputDriver, XarrayOutputDriver]"

text \<open>\<^verbatim>\<open>OUTPUT_DRIVERS = {}\<close> followed by the class statements.\<close>

definition OUTPUT_DRIVERS :: "string \<rightharpoonup> driver_class" where
  "OUTPUT_DRIVERS = foldl (\<lambda>registry cls. RegisterDriver cls registry) Map.empty module_classes"

section \<open>Grid specification (\<^verbatim>\<open>tasks._make_grid_spec\<close>)\<close>

text \<open>
  The storage dictionary of the configuration.  A key that may be absent is an
  \<open>option\<close>; \<open>tile_size\<close>, \<open>resolution\<close> and \<open>chunking\<close> are dictionaries
  from dimension names to numbers.
\<close>

record storage =
  st_crs :: "string option"
  st_tile_size :: "(string \<rightharpoonup> real) option"
  st_resolution :: "(string \<rightharpoonup> real) option"
  st_chunking :: "(string \<rightharpoonup> nat) option"

record grid_spec =
  gs_crs :: string
  gs_tile_size :: "real list"
  gs_resolution :: "real list"

text \<open>
  \<^verbatim>\<open>[storage[key][dim] for dim in crs.dimensions]\<close>: \<open>storage[key]\<close> is looked up
  once per dimension, so a missing key only raises when there is a dimension.
\<close>

fun subscript_dims ::
  "string \<Rightarrow> (string \<rightharpoonup> real) option \<Rightarrow> string list \<Rightarrow> py_error + real list" where
  "subscript_dims key d [] = Inr []"
| "subscript_dims key d (axis # axes) =
     (case d of
        None \<Rightarrow> Inl (KeyError key)
      | Some m \<Rightarrow>
          (case m axis of
             None \<Rightarrow> Inl (KeyError axis)
           | Some v \<Rightarrow>
               (case subscript_dims key d axes of
                  Inl e \<Rightarrow> Inl e
                | Inr vs \<Rightarrow> Inr (v # vs))))"

text \<open>
  \<^verbatim>\<open>_make_grid_spec(storage)\<close>.  The dimension names of a coordinate reference system
  come from the datacube library (\<^verbatim>\<open>CRS(...).dimensions\<close>) and are a parameter.
\<close>

definition make_grid_spec :: "(string \<Rightarrow> string list) \<Rightarrow> storage \<Rightarrow> py_error + grid_spec" where
  "make_grid_spec crs_dimensions storage =
     (if st_tile_size storage = None then Inl AssertionError
      else
        (case st_crs storage of
           None \<Rightarrow> Inl (KeyError ''crs'')
         | Some crs \<Rightarrow>
             (case subscript_dims ''tile_size'' (st_tile_size storage) (crs_dimensions crs) of
                Inl e \<Rightarrow> Inl e
              | Inr tile_size \<Rightarrow>
                  (case subscript_dims ''resolution'' (st_resolution storage) (crs_dimensions crs) of
                     Inl e \<Rightarrow> Inl e
                   | Inr resolution \<Rightarrow>
                       Inr \<lparr>gs_crs = crs, gs_tile_size = tile_size,
                            gs_resolution = resolution\<rparr>))))"

section \<open>The file system seen by the output drivers\<close>

type_synonym path = string

text \<open>
  An element of an array index: a position or a \<^verbatim>\<open>slice(start, stop)\<close>.
  \<^verbatim>\<open>tile_index\<close> is a tuple of slices (time, y, x).
\<close>

datatype index = At int | Range int int

text \<open>
  What a driver has written into a file: a block of values for a NetCDF variable at an
  index, or for a raster band in a window.
\<close>

datatype chunk =
    Variable_chunk string "index list" "real list"
  | Band_chunk nat "index list" "real list"

text \<open>
  The world outside the driver object: the content of every regular file, the
  directories, the handles (named by the path they were opened on) that are open, and
  what the libraries raise, if anything, for reasons outside the file tree: when a file
  is created at a path (a data type the library does not know, no permission) and when
  a block is written through a handle (an index outside the array, values of the wrong
  shape or type).
\<close>

record world =
  files :: "path \<rightharpoonup> chunk list"
  dirs :: "path set"
  opened :: "path set"
  create_fault :: "path \<Rightarrow> py_error option"
  write_fault :: "path \<Rightarrow> chunk \<Rightarrow> py_error option"

text \<open>
  What the functions below depend on outside the program and its files: whether
  \<^verbatim>\<open>Path.rename\<close> returns the new path (it does since Python 3.8 and returned
  \<^verbatim>\<open>None\<close> before), and how a run of the external tool \<^verbatim>\<open>gdal_translate\<close> on a
  source and a destination ends: with exit status 0, with another exit status
  (\<^verbatim>\<open>CalledProcessError\<close>), or not at all because the program is not installed
  (\<^verbatim>\<open>FileNotFoundError\<close>).
\<close>

datatype tool_outcome = Exit_zero | Exit_nonzero | Not_installed

record platform =
  rename_returns_path :: bool
  gdal_translate :: "path \<Rightarrow> path \<Rightarrow> tool_outcome"

subsection \<open>\<^verbatim>\<open>pathlib\<close>\<close>

text \<open>
  A \<^verbatim>\<open>Path\<close> is modelled by its string, in the form \<^verbatim>\<open>pathlib\<close> keeps it (no
  trailing or repeated \<open>/\<close>).  The empty string is the current directory and
  \<open>/\<close> is the root; both always exist.
\<close>

definition path_name :: "path \<Rightarrow> string" where
  "path_name p = rev (takeWhile (\<lambda>c. c \<noteq> CHR ''/'') (rev p))"

definition path_dir :: "path \<Rightarrow> string" where
  "path_dir p = rev (dropWhile (\<lambda>c. c \<noteq> CHR ''/'') (rev p))"

definition path_parent :: "path \<Rightarrow> path" where
  "path_parent p = (if path_dir p = ''/'' then ''/'' else butlast (path_dir p))"

text \<open>
  \<^verbatim>\<open>Path.suffix\<close>: \<^verbatim>\<open>i = name.rfind('.')\<close>, and \<^verbatim>\<open>name[i:]\<close> when
  \<^verbatim>\<open>0 < i < len(name) - 1\<close>, else the empty string.
\<close>

definition path_suffix :: "path \<Rightarrow> string" where
  "path_suffix p =
     (let name = path_name p;
          ext = rev (takeWhile (\<lambda>c. c \<noteq> CHR ''.'') (rev name))
      in if CHR ''.'' \<in> set name \<and> ext \<noteq> [] \<and> length ext + 1 < length name
         then CHR ''.'' # ext else [])"

definition path_stem :: "path \<Rightarrow> string" where
  "path_stem p = take (length (path_name p) - length (path_suffix p)) (path_name p)"


definition with_suffix :: "path \<Rightarrow> string \<Rightarrow> py_error + path" where
  "with_suffix p suffix =
     (if CHR ''/'' \<in> set suffix then Inl (ValueError ''Invalid suffix'')
      else if (suffix \<noteq> [] \<and> hd suffix \<noteq> CHR ''.'') \<or> suffix = ''.''
           then Inl (ValueError ''Invalid suffix'')
      else if path_name p = [] then Inl (ValueError ''empty name'')
      else if path_suffix p = [] then Inr (path_dir p @ path_name p @ suffix)
      else Inr (path_dir p @ path_stem p @ suffix))"

text \<open>
  \<^verbatim>\<open>Path.as_uri()\<close>: only an absolute path has a file URI.
\<close>

definition as_uri :: "path \<Rightarrow> py_error + string" where
  "as_uri p =
     (if p \<noteq> [] \<and> hd p = CHR ''/'' then Inr (''file://'' @ p)
      else Inl (ValueError ''relative path''))"

definition path_exists :: "world \<Rightarrow> path \<Rightarrow> bool" where
  "path_exists w p = (p = [] \<or> p = ''/'' \<or> files w p \<noteq> None \<or> p \<in> dirs w)"

definition is_dir :: "world \<Rightarrow> path \<Rightarrow> bool" where
  "is_dir w p = (p = [] \<or> p = ''/'' \<or> p \<in> dirs w)"

text \<open>\<^verbatim>\<open>os.mkdir\<close>: one directory, whose parent must be a directory.\<close>

definition os_mkdir :: "path \<Rightarrow> world \<Rightarrow> py_error option \<times> world" where
  "os_mkdir p w =
     (if path_exists w p then (Some (OSError EEXIST p), w)
      else if \<not> path_exists w (path_parent p) then (Some (OSError ENOENT p), w)
      else if \<not> is_dir w (path_parent p) then (Some (OSError ENOTDIR p), w)
      else (None, w\<lparr>dirs := insert p (dirs w)\<rparr>))"

text \<open>
  \<^verbatim>\<open>Path.mkdir(parents=True, exist_ok=...)\<close>: when \<^verbatim>\<open>os.mkdir\<close> finds no parent,
  the parents are made first (with \<^verbatim>\<open>exist_ok=True\<close>) and the directory is made again;
  any other \<^verbatim>\<open>OSError\<close> is raised unless \<^verbatim>\<open>exist_ok\<close> and the path is a directory.
\<close>

function path_mkdir :: "bool \<Rightarrow> path \<Rightarrow> world \<Rightarrow> py_error option \<times> world" where
  "path_mkdir exist_ok p w =
     (if path_exists w p \<or> path_exists w (path_parent p) then
        (case os_mkdir p w of
           (None, w') \<Rightarrow> (None, w')
         | (Some e, w') \<Rightarrow> if exist_ok \<and> is_dir w' p then (None, w') else (Some e, w'))
      else if path_parent p = p then (Some (OSError ENOENT p), w)
      else
        (case path_mkdir True (path_parent p) w of
           (Some e, w') \<Rightarrow> (Some e, w')
         | (None, w') \<Rightarrow>
             (case os_mkdir p w' of
                (None, w'') \<Rightarrow> (None, w'')
              | (Some e, w'') \<Rightarrow>
                  if exist_ok \<and> is_dir w'' p then (None, w'') else (Some e, w''))))"
  by pat_completeness auto
termination
proof (relation "measure (\<lambda>(exist_ok, p, w). length p)")
  show "wf (measure (\<lambda>(exist_ok, p, w). length p))"
    by simp
next
  fix exist_ok :: bool and p :: path and w :: world
  assume "\<not> (path_exists w p \<or> path_exists w (path_parent p))"
  then have ne: "0 < length p" and nr: "path_parent p \<noteq> ''/''"
    by (auto simp: path_exists_def)
  have "length (dropWhile (\<lambda>c. c \<noteq> CHR ''/'') (rev p)) \<le> length (rev p)"
    by (rule length_dropWhile_le)
  then have "length (butlast (path_dir p)) < length p"
    using ne unfolding path_dir_def length_butlast length_rev by linarith
  moreover have "path_parent p = butlast (path_dir p)"
    using nr by (simp add: path_parent_def split: if_splits)
  ultimately have "length (path_parent p) < length p"
    by simp
  then show "((True, path_parent p, w), (exist_ok, p, w)) \<in> measure (\<lambda>(exist_ok, p, w). length p)"
    by simp
qed

declare path_mkdir.simps [simp del]

text \<open>\<^verbatim>\<open>Path.unlink\<close>: removes a regular file.\<close>

definition path_unlink :: "path \<Rightarrow> world \<Rightarrow> py_error option \<times> world" where
  "path_unlink p w =
     (if files w p \<noteq> None then (None, w\<lparr>files := (files w)(p := None)\<rparr>)
      else if is_dir w p then (Some (OSError EISDIR p), w)
      else (Some (OSError ENOENT p), w))"


section \<open>Output drivers (\<^verbatim>\<open>output_drivers.py\<close>)\<close>

text \<open>
  \<^verbatim>\<open>_output_file_handles\<close>: a dictionary whose values are file handles or, for the
  raster driver writing one file per measurement, dictionaries of file handles.  A
  handle is named by the path it was opened on (\<^verbatim>\<open>fh.name\<close>, \<^verbatim>\<open>fh.filepath()\<close>).
  Dictionaries keep insertion order and are association lists.
\<close>

datatype handles = Handle path | Dict "(string \<times> handles) list"

text \<open>A measurement definition and an output product (\<^verbatim>\<open>stat\<close>).\<close>

record measurement =
  m_dtype :: string
  m_nodata :: real

record stat =
  file_path_template :: string
  measurements :: "(string \<times> measurement) list"

text \<open>
  The storage dictionary as the drivers read it: \<open>chunking\<close> and also
  \<open>dimension_order\<close>.
\<close>

record driver_storage = storage +
  st_dimension_order :: "string list option"

text \<open>
  The driver object.  Two methods are fields, since what they compute comes from the
  task and from libraries:
  \<^item> \<open>generate_output_filename\<close> stands for \<^verbatim>\<open>_generate_output_filename(kwargs,
    stat)\<close>, which fills the path template with the task's tile index and time period
    and the keyword arguments by \<^verbatim>\<open>str.format\<close> (a missing key raises);
  \<^item> \<open>find_source_datasets\<close> stands for \<^verbatim>\<open>_find_source_datasets(stat, uri)\<close>, which
    builds the dataset documents from the sources of the task with xarray and the
    datacube library; only the exception it raises, if any, matters here (it raises
    for a task without sources, where \<^verbatim>\<open>reduce\<close> has nothing to add up).

  \<open>coordinate_names\<close> are the names of the variables that
  \<^verbatim>\<open>create_netcdf_storage_unit\<close> makes for the coordinates of the sources and of the
  geobox and for the grid mapping.
\<close>

record driver =
  drv_class :: driver_class
  drv_storage :: driver_storage
  output_products :: "(string \<times> stat) list"
  output_file_handles :: "(string \<times> handles) list"
  generate_output_filename :: "(string \<times> string) list \<Rightarrow> stat \<Rightarrow> py_error + path"
  find_source_datasets :: "stat \<Rightarrow> string \<Rightarrow> py_error option"
  coordinate_names :: "string list"

text \<open>The class attribute \<^verbatim>\<open>valid_extensions\<close>, with inheritance resolved.\<close>

fun valid_extensions :: "driver_class \<Rightarrow> string list" where
  "valid_extensions OutputDriver = []"
| "valid_extensions NetCDFCFOutputDriver = [''.nc'']"
| "valid_extensions GeotiffOutputDriver = [''.tif'', ''.tiff'']"
| "valid_extensions ENVIBILOutputDriver = [''.bil'']"
| "valid_extensions TestOutputDriver = []"
| "valid_extensions XarrayOutputDriver = []"

subsection \<open>\<^verbatim>\<open>_walk_dict\<close> and \<^verbatim>\<open>close_files\<close>\<close>










subsection \<open>\<^verbatim>\<open>_prepare_output_file\<close>\<close>

text \<open>
  \<^verbatim>\<open>OutputDriver._prepare_output_file(stat, **kwargs)\<close>.  An \<^verbatim>\<open>OSError\<close> of
  \<^verbatim>\<open>mkdir\<close> is passed over, and \<^verbatim>\<open>mkdir\<close> raises nothing else.
\<close>

definition prepare_output_file ::
  "driver \<Rightarrow> stat \<Rightarrow> (string \<times> string) list \<Rightarrow> world \<Rightarrow> (py_error + path) \<times> world" where
  "prepare_output_file self stat kwargs w =
     (case generate_output_filename self kwargs stat of
        Inl e \<Rightarrow> (Inl e, w)
      | Inr output_path \<Rightarrow>
          if path_suffix output_path \<notin> set (valid_extensions (drv_class self))
          then (Inl (StatsOutputError ''Invalid Filename''), w)
          else if path_exists w output_path
          then (Inl (OutputFileAlreadyExists output_path), w)
          else
            (let w1 = snd (path_mkdir False (path_parent output_path) w)
             in case with_suffix output_path (path_suffix output_path @ ''.tmp'') of
                  Inl e \<Rightarrow> (Inl e, w1)
                | Inr tmp_path \<Rightarrow>
                    if path_exists w1 tmp_path then
                      (case path_unlink tmp_path w1 of
                         (Some e, w2) \<Rightarrow> (Inl e, w2)
                       | (None, w2) \<Rightarrow> (Inr tmp_path, w2))
                    else (Inr tmp_path, w1)))"

text \<open>
  Opening a new file for writing, as \<^verbatim>\<open>create_netcdf_storage_unit\<close> and
  \<^verbatim>\<open>rasterio.open(..., mode='w')\<close> do: unless the library raises, the file is created
  empty (an existing file is truncated) in a directory that must exist, and the handle
  is open.
\<close>

definition create_file :: "path \<Rightarrow> world \<Rightarrow> (py_error + path) \<times> world" where
  "create_file p w =
     (case create_fault w p of
        Some e \<Rightarrow> (Inl e, w)
      | None \<Rightarrow>
          if is_dir w p then (Inl (OSError EISDIR p), w)
          else if \<not> path_exists w (path_parent p) then (Inl (OSError ENOENT p), w)
          else if \<not> is_dir w (path_parent p) then (Inl (OSError ENOTDIR p), w)
          else (Inr p, w\<lparr>files := (files w)(p \<mapsto> []), opened := insert p (opened w)\<rparr>))"

text \<open>
  Writing a block through a handle: a closed handle raises, the library may raise, and
  otherwise the block is added to what the file holds.
\<close>

definition fh_write :: "path \<Rightarrow> chunk \<Rightarrow> world \<Rightarrow> py_error option \<times> world" where
  "fh_write fh c w =
     (if fh \<notin> opened w then (Some RuntimeError, w)
      else
        (case write_fault w fh c of
           Some e \<Rightarrow> (Some e, w)
         | None \<Rightarrow>
             (None,
              w\<lparr>files :=
                   (files w)(fh \<mapsto> (case files w fh of None \<Rightarrow> [] | Some cs \<Rightarrow> cs) @ [c])\<rparr>)))"

subsection \<open>The NetCDF driver\<close>

text \<open>
  \<^verbatim>\<open>[chunking[dim] for dim in self._storage['dimension_order']]\<close>.
\<close>

fun subscript_chunks :: "(string \<rightharpoonup> nat) \<Rightarrow> string list \<Rightarrow> py_error + nat list" where
  "subscript_chunks chunking [] = Inr []"
| "subscript_chunks chunking (axis # axes) =
     (case chunking axis of
        None \<Rightarrow> Inl (KeyError axis)
      | Some n \<Rightarrow>
          (case subscript_chunks chunking axes of
             Inl e \<Rightarrow> Inl e
           | Inr ns \<Rightarrow> Inr (n # ns)))"

text \<open>
  \<^verbatim>\<open>NetCDFCFOutputDriver._create_netcdf_var_params(stat)\<close>, for the chunk sizes it
  reads from the storage dictionary.
\<close>

definition create_netcdf_var_params :: "driver \<Rightarrow> py_error + nat list" where
  "create_netcdf_var_params self =
     (case st_chunking (drv_storage self) of
        None \<Rightarrow> Inl (KeyError ''chunking'')
      | Some chunking \<Rightarrow>
          (case st_dimension_order (drv_storage self) of
             None \<Rightarrow> Inl (KeyError ''dimension_order'')
           | Some dimension_order \<Rightarrow> subscript_chunks chunking dimension_order))"

text \<open>
  \<^verbatim>\<open>NetCDFCFOutputDriver._create_storage_unit(stat, output_filename)\<close>: the URI of the
  file name, the dataset documents and the variable parameters are computed, each of
  which can raise, and then the file is created.
\<close>

definition create_storage_unit ::
  "driver \<Rightarrow> stat \<Rightarrow> path \<Rightarrow> world \<Rightarrow> (py_error + path) \<times> world" where
  "create_storage_unit self stat output_filename w =
     (case as_uri output_filename of
        Inl e \<Rightarrow> (Inl e, w)
      | Inr uri \<Rightarrow>
          (case find_source_datasets self stat uri of
             Some e \<Rightarrow> (Inl e, w)
           | None \<Rightarrow>
               (case create_netcdf_var_params self of
                  Inl e \<Rightarrow> (Inl e, w)
                | Inr chunksizes \<Rightarrow> create_file output_filename w)))"

text \<open>
  \<^verbatim>\<open>NetCDFCFOutputDriver.open_output_files\<close>, as a loop over the items of
  \<^verbatim>\<open>_output_products\<close>.
\<close>

fun NetCDFCF_open_loop ::
  "driver \<Rightarrow> (string \<times> stat) list \<Rightarrow> world \<Rightarrow> py_error option \<times> driver \<times> world" where
  "NetCDFCF_open_loop self [] w = (None, self, w)"
| "NetCDFCF_open_loop self ((prod_name, stat) # rest) w =
     (case prepare_output_file self stat [] w of
        (Inl e, w1) \<Rightarrow> (Some e, self, w1)
      | (Inr output_filename, w1) \<Rightarrow>
          (case create_storage_unit self stat output_filename w1 of
             (Inl e, w2) \<Rightarrow> (Some e, self, w2)
           | (Inr nco, w2) \<Rightarrow>
               NetCDFCF_open_loop
                 (self\<lparr>output_file_handles :=
                    AList.update prod_name (Handle nco) (output_file_handles self)\<rparr>)
                 rest w2))"

definition NetCDFCF_open_output_files ::
  "driver \<Rightarrow> world \<Rightarrow> py_error option \<times> driver \<times> world" where
  "NetCDFCF_open_output_files self w = NetCDFCF_open_loop self (output_products self) w"

text \<open>
  The names of the variables in the file of a product: one for each measurement,
  those of the coordinates and the grid mapping, and \<open>dataset\<close>.
\<close>

definition variable_names :: "driver \<Rightarrow> string \<Rightarrow> string list" where
  "variable_names self prod_name =
     (case map_of (output_products self) prod_name of
        None \<Rightarrow> []
      | Some stat \<Rightarrow> map fst (measurements stat))
     @ coordinate_names self @ [''dataset'']"

text \<open>
  \<^verbatim>\<open>NetCDFCFOutputDriver.write_data\<close>: the base method is not called.  The value
  stored for a product by this driver is a handle; subscripting it with a name that is
  no variable of the file raises \<^verbatim>\<open>IndexError\<close>.  After the write the file is
  synchronised.
\<close>

definition NetCDFCF_write_data ::
  "driver \<Rightarrow> string \<Rightarrow> string \<Rightarrow> (int \<times> int) list \<Rightarrow> real list \<Rightarrow> world
     \<Rightarrow> py_error option \<times> world" where
  "NetCDFCF_write_data self prod_name measurement_name tile_index values w =
     (case map_of (output_file_handles self) prod_name of
        None \<Rightarrow> (Some (KeyError prod_name), w)
      | Some (Dict d) \<Rightarrow>
          (case map_of d measurement_name of
             None \<Rightarrow> (Some (KeyError measurement_name), w)
           | Some h \<Rightarrow> (Some TypeError, w))
      | Some (Handle fh) \<Rightarrow>
          if measurement_name \<notin> set (variable_names self prod_name)
          then (Some IndexError, w)
          else fh_write fh
                 (Variable_chunk measurement_name
                    (At 0 # map (\<lambda>(start, stop). Range start stop) (drop 1 tile_index))
                    values) w)"

subsection \<open>The raster driver\<close>

text \<open>A Python truth test on an optional string: \<^verbatim>\<open>None\<close> and \<^verbatim>\<open>''\<close> are false.\<close>

definition truthy :: "string option \<Rightarrow> bool" where
  "truthy s = (case s of None \<Rightarrow> False | Some n \<Rightarrow> n \<noteq> [])"

text \<open>\<^verbatim>\<open>GeotiffOutputDriver._get_dtype(out_prod_name, measurement_name=None)\<close>.\<close>

definition get_dtype :: "driver \<Rightarrow> string \<Rightarrow> string option \<Rightarrow> py_error + string" where
  "get_dtype self out_prod_name measurement_name =
     (case map_of (output_products self) out_prod_name of
        None \<Rightarrow> Inl (KeyError out_prod_name)
      | Some stat \<Rightarrow>
          if truthy measurement_name then
            (case map_of (measurements stat) (the measurement_name) of
               None \<Rightarrow> Inl (KeyError (the measurement_name))
             | Some m \<Rightarrow> Inr (m_dtype m))
          else
            (let dtypes = remdups (map (\<lambda>(name, m). m_dtype m) (measurements stat))
             in if length dtypes = 1 then Inr (hd dtypes)
                else Inl (StatsOutputError ''Not all measurements have the same dtype'')))"

text \<open>\<^verbatim>\<open>GeotiffOutputDriver._get_nodata(prod_name, measurement_name=None)\<close>.\<close>

definition get_nodata :: "driver \<Rightarrow> string \<Rightarrow> string option \<Rightarrow> py_error + real" where
  "get_nodata self prod_name measurement_name =
     (case get_dtype self prod_name measurement_name of
        Inl e \<Rightarrow> Inl e
      | Inr dtype \<Rightarrow>
          (case map_of (output_products self) prod_name of
             None \<Rightarrow> Inl (KeyError prod_name)
           | Some stat \<Rightarrow>
               (case
                  (if truthy measurement_name then
                     (case map_of (measurements stat) (the measurement_name) of
                        None \<Rightarrow> Inl (KeyError (the measurement_name))
                      | Some m \<Rightarrow> Inr (m_nodata m))
                   else
                     (let nodatas = remdups (map (\<lambda>(name, m). m_nodata m) (measurements stat))
                      in if length nodatas = 1 then Inr (hd nodatas)
                         else Inl (StatsOutputError ''Not all nodata values are the same'')))
                of
                  Inl e \<Rightarrow> Inl e
                | Inr nodata \<Rightarrow>
                    if dtype = ''uint8'' \<and> nodata < 0 then Inr 255 else Inr nodata)))"

text \<open>
  The block sizes read by \<^verbatim>\<open>_open_geotiff\<close>:
  \<^verbatim>\<open>chunking[a] if a in chunking else chunking[b]\<close>.
\<close>

definition block_size :: "driver_storage \<Rightarrow> string \<Rightarrow> string \<Rightarrow> py_error + nat" where
  "block_size storage a b =
     (case st_chunking storage of
        None \<Rightarrow> Inl (KeyError ''chunking'')
      | Some chunking \<Rightarrow>
          (case chunking a of
             Some n \<Rightarrow> Inr n
           | None \<Rightarrow> (case chunking b of Some n \<Rightarrow> Inr n | None \<Rightarrow> Inl (KeyError b))))"

text \<open>
  \<^verbatim>\<open>GeotiffOutputDriver._open_geotiff(prod_name, measurement_name, output_filename,
  num_bands)\<close>: the profile is computed, which can raise, and the file is created.
\<close>

definition open_geotiff ::
  "driver \<Rightarrow> string \<Rightarrow> string option \<Rightarrow> path \<Rightarrow> nat \<Rightarrow> world \<Rightarrow> (py_error + path) \<times> world" where
  "open_geotiff self prod_name measurement_name output_filename num_bands w =
     (case get_dtype self prod_name measurement_name of
        Inl e \<Rightarrow> (Inl e, w)
      | Inr dtype \<Rightarrow>
          (case get_nodata self prod_name measurement_name of
             Inl e \<Rightarrow> (Inl e, w)
           | Inr nodata \<Rightarrow>
               (case block_size (drv_storage self) ''x'' ''longitude'' of
                  Inl e \<Rightarrow> (Inl e, w)
                | Inr x_block_size \<Rightarrow>
                    (case block_size (drv_storage self) ''y'' ''latitude'' of
                       Inl e \<Rightarrow> (Inl e, w)
                     | Inr y_block_size \<Rightarrow> create_file output_filename w))))"

text \<open>
  \<^verbatim>\<open>self._output_file_handles.setdefault(prod_name, {})[measurement_name] = dest_fh\<close>.
\<close>

definition setdefault_store ::
  "(string \<times> handles) list \<Rightarrow> string \<Rightarrow> string \<Rightarrow> path \<Rightarrow> py_error + (string \<times> handles) list" where
  "setdefault_store hs prod_name measurement_name dest_fh =
     (case map_of hs prod_name of
        None \<Rightarrow> Inr (AList.update prod_name (Dict [(measurement_name, Handle dest_fh)]) hs)
      | Some (Dict d) \<Rightarrow>
          Inr (AList.update prod_name
                 (Dict (AList.update measurement_name (Handle dest_fh) d)) hs)
      | Some (Handle fh) \<Rightarrow> Inl TypeError)"

text \<open>\<^verbatim>\<open>GeotiffOutputDriver._open_single_band_geotiff(prod_name, stat, measurement_name)\<close>.\<close>

definition open_single_band_geotiff ::
  "driver \<Rightarrow> string \<Rightarrow> stat \<Rightarrow> string \<Rightarrow> world \<Rightarrow> py_error option \<times> driver \<times> world" where
  "open_single_band_geotiff self prod_name stat measurement_name w =
     (case prepare_output_file self stat [(''var_name'', measurement_name)] w of
        (Inl e, w1) \<Rightarrow> (Some e, self, w1)
      | (Inr output_filename, w1) \<Rightarrow>
          (case open_geotiff self prod_name (Some measurement_name) output_filename 1 w1 of
             (Inl e, w2) \<Rightarrow> (Some e, self, w2)
           | (Inr dest_fh, w2) \<Rightarrow>
               (case setdefault_store (output_file_handles self) prod_name measurement_name
                       dest_fh of
                  Inl e \<Rightarrow> (Some e, self, w2)
                | Inr hs \<Rightarrow> (None, self\<lparr>output_file_handles := hs\<rparr>, w2))))"

text \<open>
  The loop \<^verbatim>\<open>for measurement_name, measure_def in stat.product.measurements.items():
  self._open_single_band_geotiff(prod_name, stat, measurement_name)\<close>.
\<close>

fun open_single_bands ::
  "driver \<Rightarrow> string \<Rightarrow> stat \<Rightarrow> string list \<Rightarrow> world \<Rightarrow> py_error option \<times> driver \<times> world" where
  "open_single_bands self prod_name stat [] w = (None, self, w)"
| "open_single_bands self prod_name stat (measurement_name # rest) w =
     (case open_single_band_geotiff self prod_name stat measurement_name w of
        (Some e, self1, w1) \<Rightarrow> (Some e, self1, w1)
      | (None, self1, w1) \<Rightarrow> open_single_bands self1 prod_name stat rest w1)"

text \<open>
  The local variables of \<^verbatim>\<open>GeotiffOutputDriver.open_output_files\<close> that are read
  before the statement that assigns them in the same iteration.  A local variable is
  unbound (\<open>None\<close>) until an assignment or a \<^verbatim>\<open>for\<close> target binds it; reading it
  unbound raises \<^verbatim>\<open>UnboundLocalError\<close>.
\<close>

record geotiff_locals =
  loc_output_filename :: "path option"
  loc_measurement_name :: "string option"

text \<open>
  \<^verbatim>\<open>GeotiffOutputDriver.open_output_files\<close>, as a loop over the items of
  \<^verbatim>\<open>_output_products\<close>.  The first statement of the body evaluates
  \<^verbatim>\<open>output_filename.as_uri()\<close> as an argument of \<^verbatim>\<open>_find_source_datasets\<close> (which
  gathers metadata and touches no file); \<^verbatim>\<open>output_filename\<close> is only assigned in
  the last branch of the body, and \<^verbatim>\<open>measurement_name\<close> only by the two
  \<^verbatim>\<open>for\<close> statements.
\<close>

fun Geotiff_open_loop ::
  "driver \<Rightarrow> geotiff_locals \<Rightarrow> (string \<times> stat) list \<Rightarrow> world
     \<Rightarrow> py_error option \<times> driver \<times> world" where
  "Geotiff_open_loop self loc [] w = (None, self, w)"
| "Geotiff_open_loop self loc ((prod_name, stat) # rest) w =
     (case loc_output_filename loc of
        None \<Rightarrow> (Some (UnboundLocalError ''output_filename''), self, w)
      | Some previous_filename \<Rightarrow>
          (case as_uri previous_filename of
             Inl e \<Rightarrow> (Some e, self, w)
           | Inr uri \<Rightarrow>
          (case find_source_datasets self stat uri of
             Some e \<Rightarrow> (Some e, self, w)
           | None \<Rightarrow>
          (let num_measurements = length (measurements stat) in
           if num_measurements = 0 then (Some (ValueError ''No measurements to record''), self, w)
           else if num_measurements > 1 \<and> str_contains ''var_name'' (file_path_template stat)
           then
             (case open_single_bands self prod_name stat (map fst (measurements stat)) w of
                (Some e, self1, w1) \<Rightarrow> (Some e, self1, w1)
              | (None, self1, w1) \<Rightarrow>
                  Geotiff_open_loop self1
                    (loc\<lparr>loc_measurement_name := Some (last (map fst (measurements stat)))\<rparr>)
                    rest w1)
           else
             (case loc_measurement_name loc of
                None \<Rightarrow> (Some (UnboundLocalError ''measurement_name''), self, w)
              | Some measurement_name \<Rightarrow>
                  (case prepare_output_file self stat [(''var_name'', measurement_name)] w of
                     (Inl e, w1) \<Rightarrow> (Some e, self, w1)
                   | (Inr output_filename, w1) \<Rightarrow>
                       (case open_geotiff self prod_name None output_filename
                               num_measurements w1 of
                          (Inl e, w2) \<Rightarrow> (Some e, self, w2)
                        | (Inr dest_fh, w2) \<Rightarrow>
                            Geotiff_open_loop
                              (self\<lparr>output_file_handles :=
                                 AList.update prod_name (Handle dest_fh)
                                   (output_file_handles self)\<rparr>)
                              \<lparr>loc_output_filename = Some output_filename,
                               loc_measurement_name =
                                 Some (last (map fst (measurements stat)))\<rparr>
                              rest w2)))))))"

definition Geotiff_open_output_files ::
  "driver \<Rightarrow> world \<Rightarrow> py_error option \<times> driver \<times> world" where
  "Geotiff_open_output_files self w =
     Geotiff_open_loop self \<lparr>loc_output_filename = None, loc_measurement_name = None\<rparr>
       (output_products self) w"

text \<open>\<^verbatim>\<open>OutputDriver.write_data\<close>: the body of the abstract method, reached through \<^verbatim>\<open>super\<close>.\<close>

definition OutputDriver_write_data :: "driver \<Rightarrow> py_error option" where
  "OutputDriver_write_data self =
     (if length (output_file_handles self) \<le> 0
      then Some (StatsOutputError ''No files opened for writing.'') else None)"

text \<open>\<^verbatim>\<open>list(stat.product.measurements).index(measurement_name)\<close>.\<close>

fun list_index :: "string list \<Rightarrow> string \<Rightarrow> py_error + nat" where
  "list_index [] x = Inl (ValueError ''not in list'')"
| "list_index (y # ys) x =
     (if y = x then Inr 0
      else (case list_index ys x of Inl e \<Rightarrow> Inl e | Inr i \<Rightarrow> Inr (Suc i)))"

text \<open>\<^verbatim>\<open>GeotiffOutputDriver.write_data\<close>.\<close>

definition Geotiff_write_data ::
  "driver \<Rightarrow> string \<Rightarrow> string \<Rightarrow> (int \<times> int) list \<Rightarrow> real list \<Rightarrow> world
     \<Rightarrow> py_error option \<times> world" where
  "Geotiff_write_data self prod_name measurement_name tile_index values w =
     (case OutputDriver_write_data self of
        Some e \<Rightarrow> (Some e, w)
      | None \<Rightarrow>
          (case
             (case map_of (output_file_handles self) prod_name of
                None \<Rightarrow> Inl (KeyError prod_name)
              | Some (Dict d) \<Rightarrow>
                  (case map_of d measurement_name of
                     None \<Rightarrow> Inl (KeyError measurement_name)
                   | Some (Dict d') \<Rightarrow> Inl TypeError
                   | Some (Handle fh) \<Rightarrow> Inr (fh, 1))
              | Some (Handle fh) \<Rightarrow>
                  (case map_of (output_products self) prod_name of
                     None \<Rightarrow> Inl (KeyError prod_name)
                   | Some stat \<Rightarrow>
                       (case list_index (map fst (measurements stat)) measurement_name of
                          Inl e \<Rightarrow> Inl e
                        | Inr i \<Rightarrow> Inr (fh, i + 1))))
           of
             Inl e \<Rightarrow> (Some e, w)
           | Inr (output_fh, band_num) \<Rightarrow>
               (case tile_index of
                  [t, (y_start, y_stop), (x_start, x_stop)] \<Rightarrow>
                    (case get_dtype self prod_name (Some measurement_name) of
                       Inl e \<Rightarrow> (Some e, w)
                     | Inr dtype \<Rightarrow>
                         fh_write output_fh
                           (Band_chunk band_num [Range y_start y_stop, Range x_start x_stop]
                              values) w)
                | _ \<Rightarrow> (Some (ValueError ''unpack''), w))))"

subsection \<open>Method dispatch and the context manager\<close>

text \<open>
  \<^verbatim>\<open>self.open_output_files()\<close> and \<^verbatim>\<open>self.write_data(...)\<close> with the method resolved
  by the class of the driver.  \<^verbatim>\<open>ENVIBILOutputDriver\<close> inherits both from the raster
  driver; the test and xarray drivers define both as \<^verbatim>\<open>pass\<close>.
\<close>

definition open_output_files :: "driver \<Rightarrow> world \<Rightarrow> py_error option \<times> driver \<times> world" where
  "open_output_files self w =
     (case drv_class self of
        OutputDriver \<Rightarrow> (Some NotImplementedError, self, w)
      | NetCDFCFOutputDriver \<Rightarrow> NetCDFCF_open_output_files self w
      | GeotiffOutputDriver \<Rightarrow> Geotiff_open_output_files self w
      | ENVIBILOutputDriver \<Rightarrow> Geotiff_open_output_files self w
      | TestOutputDriver \<Rightarrow> (None, self, w)
      | XarrayOutputDriver \<Rightarrow> (None, self, w))"

definition write_data ::
  "driver \<Rightarrow> string \<Rightarrow> string \<Rightarrow> (int \<times> int) list \<Rightarrow> real list \<Rightarrow> world
     \<Rightarrow> py_error option \<times> world" where
  "write_data self prod_name measurement_name tile_index values w =
     (case drv_class self of
        OutputDriver \<Rightarrow> (OutputDriver_write_data self, w)
      | NetCDFCFOutputDriver \<Rightarrow>
          NetCDFCF_write_data self prod_name measurement_name tile_index values w
      | GeotiffOutputDriver \<Rightarrow>
          Geotiff_write_data self prod_name measurement_name tile_index values w
      | ENVIBILOutputDriver \<Rightarrow>
          Geotiff_write_data self prod_name measurement_name tile_index values w
      | TestOutputDriver \<Rightarrow> (None, w)
      | XarrayOutputDriver \<Rightarrow> (None, w))"




section \<open>Notions used to state the theorems\<close>






section \<open>Example inputs\<close>

text \<open>
  \<^verbatim>\<open>_generate_output_filename\<close> for a path template without replacement fields and
  an empty base directory: the path is the template.
\<close>

definition literal_template :: "(string \<times> string) list \<Rightarrow> stat \<Rightarrow> py_error + path" where
  "literal_template kwargs stat = Inr (file_path_template stat)"



definition no_conversion_tool :: platform where
  "no_conversion_tool =
     \<lparr>rename_returns_path = True, gdal_translate = (\<lambda>source dest. Not_installed)\<rparr>"

text \<open>
  The storage dictionary of the class documentation, for the keys the drivers read.
\<close>

definition example_storage :: driver_storage where
  "example_storage =
     \<lparr>st_crs = Some ''EPSG:3577'',
      st_tile_size = Some [''x'' \<mapsto> 100000, ''y'' \<mapsto> 100000],
      st_resolution = Some [''x'' \<mapsto> 25, ''y'' \<mapsto> - 25],
      st_chunking = Some [''x'' \<mapsto> 200, ''y'' \<mapsto> 200, ''time'' \<mapsto> 1],
      st_dimension_order = Some [''time'', ''y'', ''x'']\<rparr>"

text \<open>
  A driver object on the literal templates above, for a task whose sources give
  dataset documents without an exception.
\<close>

definition example_driver :: "driver_class \<Rightarrow> (string \<times> stat) list \<Rightarrow> (string \<times> handles) list \<Rightarrow> driver" where
  "example_driver cls products hs =
     \<lparr>drv_class = cls, drv_storage = example_storage, output_products = products,
      output_file_handles = hs, generate_output_filename = literal_template,
      find_source_datasets = (\<lambda>stat uri. None),
      coordinate_names = [''time'', ''y'', ''x'', ''crs'']\<rparr>"

text \<open>
  An output product with two measurements of the same type and no-data value.
\<close>

definition example_stat :: "string \<Rightarrow> stat" where
  "example_stat template =
     \<lparr>file_path_template = template,
      measurements = [(''mean'', \<lparr>m_dtype = ''float32'', m_nodata = - 999\<rparr>),
                      (''max'', \<lparr>m_dtype = ''float32'', m_nodata = - 999\<rparr>)]\<rparr>"

text \<open>
  Worlds in which the libraries raise nothing of their own: one with the directory
  \<open>out\<close> below the current directory, and one with the directory \<open>/data/out\<close>,
  each with the given files and handles.
\<close>

definition out_world :: "(path \<rightharpoonup> chunk list) \<Rightarrow> world" where
  "out_world fs =
     \<lparr>files = fs, dirs = {''out''}, opened = {},
      create_fault = (\<lambda>p. None), write_fault = (\<lambda>fh c. None)\<rparr>"

definition data_world :: "(path \<rightharpoonup> chunk list) \<Rightarrow> path set \<Rightarrow> world" where
  "data_world fs handles =
     \<lparr>files = fs, dirs = {''/data'', ''/data/out''}, opened = handles,
      create_fault = (\<lambda>p. None), write_fault = (\<lambda>fh c. None)\<rparr>"



section \<open>Theorems\<close>

text \<open>
  Claim C10.  Executing the module registers each of the five subclasses of
  \<^verbatim>\<open>OutputDriver\<close> under its class name without the text \<open>OutputDriver\<close>:
  \<open>NetCDFCF\<close>, \<open>Geotiff\<close>, \<open>ENVIBIL\<close>, \<open>Test\<close> and \<open>Xarray\<close>.  The registry has
  no other key; the base class, whose stripped name is empty, is the value of no key.
\<close>

theorem C10_registry:
  "OUTPUT_DRIVERS =
     [''NetCDFCF'' \<mapsto> NetCDFCFOutputDriver, ''Geotiff'' \<mapsto> GeotiffOutputDriver,
      ''ENVIBIL'' \<mapsto> ENVIBILOutputDriver, ''Test'' \<mapsto> TestOutputDriver,
      ''Xarray'' \<mapsto> XarrayOutputDriver]
   \<and> class_name NetCDFCFOutputDriver = ''NetCDFCF'' @ ''OutputDriver''
   \<and> class_name GeotiffOutputDriver = ''Geotiff'' @ ''OutputDriver''
   \<and> class_name ENVIBILOutputDriver = ''ENVIBIL'' @ ''OutputDriver''
   \<and> class_name TestOutputDriver = ''Test'' @ ''OutputDriver''
   \<and> class_name XarrayOutputDriver = ''Xarray'' @ ''OutputDriver''
   \<and> str_replace ''OutputDriver'' '''' (class_name OutputDriver) = ''''
   \<and> OUTPUT_DRIVERS '''' = None
   \<and> (\<forall>name. OUTPUT_DRIVERS name \<noteq> Some OutputDriver)"
proof -
  have r0: "str_replace ''OutputDriver'' '''' ''OutputDriver'' = ''''"
    by simp
  have r1: "str_replace ''OutputDriver'' '''' ''NetCDFCFOutputDriver'' = ''NetCDFCF''"
    by simp
  have r2: "str_replace ''OutputDriver'' '''' ''GeotiffOutputDriver'' = ''Geotiff''"
    by simp
  have r3: "str_replace ''OutputDriver'' '''' ''ENVIBILOutputDriver'' = ''ENVIBIL''"
    by simp
  have r4: "str_replace ''OutputDriver'' '''' ''TestOutputDriver'' = ''Test''"
    by simp
  have r5: "str_replace ''OutputDriver'' '''' ''XarrayOutputDriver'' = ''Xarray''"
    by simp
  have reg: "OUTPUT_DRIVERS =
     [''NetCDFCF'' \<mapsto> NetCDFCFOutputDriver, ''Geotiff'' \<mapsto> GeotiffOutputDriver,
      ''ENVIBIL'' \<mapsto> ENVIBILOutputDriver, ''Test'' \<mapsto> TestOutputDriver,
      ''Xarray'' \<mapsto> XarrayOutputDriver]"
    unfolding OUTPUT_DRIVERS_def module_classes_def RegisterDriver_def
    by (simp only: foldl.simps class_name.simps r0 r1 r2 r3 r4 r5 Let_def) simp
  have none: "\<forall>name. OUTPUT_DRIVERS name \<noteq> Some OutputDriver"
    unfolding reg by simp
  have empty: "OUTPUT_DRIVERS '''' = None"
    unfolding reg by simp
  show ?thesis
    using reg none empty r0 by simp
qed

text \<open>
  Claim C8.  When the storage configuration has no \<open>tile_size\<close> key, deriving the grid
  specification fails: the assertion \<^verbatim>\<open>assert 'tile_size' in storage\<close> is the first
  statement and raises, whatever the other keys hold.  This assertion failure is what
  the specification calls a configuration error.
\<close>

theorem C8_missing_tile_size:
  "st_tile_size storage = None \<Longrightarrow> make_grid_spec crs_dimensions storage = Inl AssertionError"
  by (simp add: make_grid_spec_def)

theorem C8_missing_tile_size_witness:
  "st_tile_size \<lparr>st_crs = Some ''EPSG:3577'', st_tile_size = None,
                 st_resolution = Some [''x'' \<mapsto> 25, ''y'' \<mapsto> - 25],
                 st_chunking = None\<rparr> = None
   \<and> make_grid_spec (\<lambda>crs. [''y'', ''x''])
        \<lparr>st_crs = Some ''EPSG:3577'', st_tile_size = None,
         st_resolution = Some [''x'' \<mapsto> 25, ''y'' \<mapsto> - 25],
         st_chunking = None\<rparr> = Inl AssertionError"
  using C8_missing_tile_size
    [of "\<lparr>st_crs = Some ''EPSG:3577'', st_tile_size = None,
          st_resolution = Some [''x'' \<mapsto> 25, ''y'' \<mapsto> - 25],
          st_chunking = None\<rparr>" "\<lambda>crs. [''y'', ''x'']"]
  by simp

section \<open>Closing the files of a driver\<close>








section \<open>Preparing an output file\<close>

text \<open>
  Facts on \<^verbatim>\<open>pathlib\<close>: a path is its directory part followed by its name, and a
  name with a suffix is its stem followed by the suffix.
\<close>

lemma path_split: "path_dir p @ path_name p = p"
proof -
  have "rev (takeWhile (\<lambda>c. c \<noteq> CHR ''/'') (rev p) @ dropWhile (\<lambda>c. c \<noteq> CHR ''/'') (rev p)) = p"
    by (simp only: takeWhile_dropWhile_id rev_rev_ident)
  then show ?thesis
    unfolding path_dir_def path_name_def rev_append .
qed

lemma name_no_slash: "CHR ''/'' \<notin> set (path_name p)"
  using set_takeWhileD [of "CHR ''/''" "\<lambda>c. c \<noteq> CHR ''/''" "rev p"]
  by (auto simp: path_name_def)

lemma name_split:
  assumes "path_suffix p \<noteq> []"
  shows "path_stem p @ path_suffix p = path_name p"
proof -
  define name where "name = path_name p"
  define tw where "tw = takeWhile (\<lambda>c. c \<noteq> CHR ''.'') (rev name)"
  define dw where "dw = dropWhile (\<lambda>c. c \<noteq> CHR ''.'') (rev name)"
  have suf: "path_suffix p = CHR ''.'' # rev tw" and dot: "CHR ''.'' \<in> set name"
    using assms by (auto simp: path_suffix_def Let_def name_def tw_def split: if_splits)
  have "dw \<noteq> []"
    using dot by (auto simp: dw_def dropWhile_eq_Nil_conv)
  moreover have "hd dw = CHR ''.''" if "dw \<noteq> []"
    using that hd_dropWhile [of "\<lambda>c. c \<noteq> CHR ''.''" "rev name"] by (simp add: dw_def)
  ultimately obtain rest where dw: "dw = CHR ''.'' # rest"
    by (cases dw) auto
  have "rev name = tw @ dw"
    by (simp add: tw_def dw_def)
  then have "name = rev (tw @ CHR ''.'' # rest)"
    using dw by (metis rev_rev_ident)
  then have nm: "name = rev rest @ CHR ''.'' # rev tw"
    by simp
  have "path_stem p = take (length name - length (CHR ''.'' # rev tw)) name"
    by (simp add: path_stem_def name_def suf)
  also have "\<dots> = rev rest"
    by (simp add: nm)
  finally show ?thesis
    by (simp add: suf nm name_def [symmetric])
qed

lemma suffix_shape:
  assumes "path_suffix p \<noteq> []"
  shows "hd (path_suffix p) = CHR ''.''" "CHR ''/'' \<notin> set (path_suffix p)"
    "path_suffix p \<noteq> ''.''" "path_name p \<noteq> []"
proof -
  show "hd (path_suffix p) = CHR ''.''"
    using assms by (auto simp: path_suffix_def Let_def split: if_splits)
  have "set (path_suffix p) \<subseteq> set (path_name p)"
    using name_split [OF assms] by (metis Un_upper2 set_append)
  then show "CHR ''/'' \<notin> set (path_suffix p)"
    using name_no_slash [of p] by auto
  show "path_suffix p \<noteq> ''.''"
    using assms by (auto simp: path_suffix_def Let_def split: if_splits)
  show "path_name p \<noteq> []"
    using name_split [OF assms] assms by auto
qed

lemma with_suffix_tmp:
  assumes "path_suffix p \<noteq> []"
  shows "with_suffix p (path_suffix p @ ''.tmp'') = Inr (p @ ''.tmp'')"
proof -
  have "path_dir p @ path_stem p @ path_suffix p @ ''.tmp'' = p @ ''.tmp''"
    using name_split [OF assms] path_split [of p] by (metis append.assoc)
  moreover have "hd (path_suffix p @ ''.tmp'') = CHR ''.''"
    using suffix_shape(1) [OF assms] assms by simp
  ultimately show ?thesis
    using suffix_shape(2,4) [OF assms] assms
    by (simp add: with_suffix_def)
qed


lemma tmp_not_special: "p @ ''.tmp'' \<noteq> []" "p @ ''.tmp'' \<noteq> ''/''"
proof -
  show "p @ ''.tmp'' \<noteq> []"
    by simp
  have "length (p @ ''.tmp'') \<noteq> length ''/''"
    by simp
  then show "p @ ''.tmp'' \<noteq> ''/''"
    by metis
qed

lemma os_mkdir_facts:
  "files (snd (os_mkdir p w)) = files w" "opened (snd (os_mkdir p w)) = opened w"
  "dirs w \<subseteq> dirs (snd (os_mkdir p w))" "dirs (snd (os_mkdir p w)) \<subseteq> insert p (dirs w)"
  "is_dir w (path_parent p) \<or> dirs (snd (os_mkdir p w)) = dirs w"
  by (auto simp: os_mkdir_def path_exists_def is_dir_def)

lemma parent_length: "length (path_parent p) \<le> length p"
proof (cases "path_dir p = ''/''")
  case True
  have "length p = length (path_dir p) + length (path_name p)"
    using path_split [of p] by (metis length_append)
  then show ?thesis
    using True by (simp add: path_parent_def)
next
  case False
  have "length (dropWhile (\<lambda>c. c \<noteq> CHR ''/'') (rev p)) \<le> length (rev p)"
    by (rule length_dropWhile_le)
  then have "length (butlast (path_dir p)) \<le> length p"
    unfolding path_dir_def length_butlast length_rev by linarith
  then show ?thesis
    using False by (simp add: path_parent_def)
qed

lemma path_mkdir_facts:
  "files (snd (path_mkdir e p w)) = files w \<and> opened (snd (path_mkdir e p w)) = opened w
   \<and> create_fault (snd (path_mkdir e p w)) = create_fault w
   \<and> write_fault (snd (path_mkdir e p w)) = write_fault w
   \<and> dirs w \<subseteq> dirs (snd (path_mkdir e p w))
   \<and> (\<forall>d\<in>dirs (snd (path_mkdir e p w)). d \<in> dirs w \<or> length d \<le> length p)"
proof (induction e p w rule: path_mkdir.induct)
  case (1 exist_ok p w)
  have of': "\<And>w. create_fault (snd (os_mkdir p w)) = create_fault w
                \<and> write_fault (snd (os_mkdir p w)) = write_fault w"
    by (simp add: os_mkdir_def)
  show ?case
  proof (cases "path_exists w p \<or> path_exists w (path_parent p)")
    case True
    obtain r w' where o: "os_mkdir p w = (r, w')"
      by (cases "os_mkdir p w")
    have "path_mkdir exist_ok p w = (if r = None \<or> exist_ok \<and> is_dir w' p then None else r, w')"
      using True o by (subst path_mkdir.simps) (auto split: option.splits)
    then have s: "snd (path_mkdir exist_ok p w) = snd (os_mkdir p w)"
      by (simp add: o)
    show ?thesis
      unfolding s using os_mkdir_facts [where p = p and w = w] of' [of w] by auto
  next
    case False
    show ?thesis
    proof (cases "path_parent p = p")
      case True
      then have "path_mkdir exist_ok p w = (Some (OSError ENOENT p), w)"
        using False by (subst path_mkdir.simps) simp
      then show ?thesis by simp
    next
      case np: False
      obtain r w1 where rec: "path_mkdir True (path_parent p) w = (r, w1)"
        by (cases "path_mkdir True (path_parent p) w")
      have ih: "files w1 = files w \<and> opened w1 = opened w
                \<and> create_fault w1 = create_fault w \<and> write_fault w1 = write_fault w
                \<and> dirs w \<subseteq> dirs w1
                \<and> (\<forall>d\<in>dirs w1. d \<in> dirs w \<or> length d \<le> length (path_parent p))"
        using "1.IH" [OF False np] rec by simp
      show ?thesis
      proof (cases r)
        case (Some e)
        then have "path_mkdir exist_ok p w = (Some e, w1)"
          using False np rec by (subst path_mkdir.simps) simp
        then show ?thesis
          using ih parent_length [of p] by (auto dest: le_trans)
      next
        case None
        obtain r2 w2 where o: "os_mkdir p w1 = (r2, w2)"
          by (cases "os_mkdir p w1")
        have "path_mkdir exist_ok p w
              = (if r2 = None \<or> exist_ok \<and> is_dir w2 p then None else r2, w2)"
          using False np rec None o by (subst path_mkdir.simps) (auto split: option.splits)
        then have s: "snd (path_mkdir exist_ok p w) = w2"
          by simp
        have w2: "files w2 = files w1" "opened w2 = opened w1" "dirs w1 \<subseteq> dirs w2"
          "dirs w2 \<subseteq> insert p (dirs w1)" "create_fault w2 = create_fault w1"
          "write_fault w2 = write_fault w1"
          using os_mkdir_facts [where p = p and w = w1] of' [of w1] o by simp_all
        show ?thesis
          unfolding s using ih w2 parent_length [of p] by (auto dest: le_trans)
      qed
    qed
  qed
qed

lemma path_mkdir_is_dir:
  assumes "is_dir w q"
  shows "snd (path_mkdir e q w) = w"
proof -
  have ex: "path_exists w q"
    using assms by (auto simp: path_exists_def is_dir_def)
  then have o: "os_mkdir q w = (Some (OSError EEXIST q), w)"
    by (simp add: os_mkdir_def)
  have "path_mkdir e q w = (if e \<and> is_dir w q then None else Some (OSError EEXIST q), w)"
    using ex by (subst path_mkdir.simps) (simp add: o)
  then show ?thesis by simp
qed

lemma prepare_exists:
  assumes "generate_output_filename self kwargs stat = Inr p"
    and "path_suffix p \<in> set (valid_extensions (drv_class self))"
    and "path_exists w p"
  shows "prepare_output_file self stat kwargs w = (Inl (OutputFileAlreadyExists p), w)"
  using assms by (simp add: prepare_output_file_def)

lemma prepare_fresh:
  assumes gen: "generate_output_filename self kwargs stat = Inr p"
    and valid: "path_suffix p \<in> set (valid_extensions (drv_class self))"
    and fresh: "\<not> path_exists w p"
    and nodir: "p @ ''.tmp'' \<notin> dirs w"
  shows "prepare_output_file self stat kwargs w
         = (Inr (p @ ''.tmp''),
            (snd (path_mkdir False (path_parent p) w))\<lparr>files := (files w)(p @ ''.tmp'' := None)\<rparr>)"
proof -
  define w1 where "w1 = snd (path_mkdir False (path_parent p) w)"
  have ne: "path_suffix p \<noteq> []"
    using valid by (cases "drv_class self") auto
  have ws: "with_suffix p (path_suffix p @ ''.tmp'') = Inr (p @ ''.tmp'')"
    by (rule with_suffix_tmp [OF ne])
  have m: "files w1 = files w" "opened w1 = opened w"
    "\<forall>d\<in>dirs w1. d \<in> dirs w \<or> length d \<le> length (path_parent p)"
    using path_mkdir_facts [of False "path_parent p" w] by (simp_all add: w1_def)
  have "length (path_parent p) < length (p @ ''.tmp'')"
    using parent_length [of p] by simp
  then have nd1: "p @ ''.tmp'' \<notin> dirs w1"
    using m(3) nodir by (metis not_less)
  have unfold: "prepare_output_file self stat kwargs w
      = (if path_exists w1 (p @ ''.tmp'') then
           (case path_unlink (p @ ''.tmp'') w1 of
              (Some e, w2) \<Rightarrow> (Inl e, w2) | (None, w2) \<Rightarrow> (Inr (p @ ''.tmp''), w2))
         else (Inr (p @ ''.tmp''), w1))"
    using gen valid fresh by (simp add: prepare_output_file_def ws w1_def Let_def)
  have ex: "path_exists w1 (p @ ''.tmp'') = (files w1 (p @ ''.tmp'') \<noteq> None)"
    unfolding path_exists_def using nd1 tmp_not_special [of p] by blast
  show ?thesis
  proof (cases "files w1 (p @ ''.tmp'') = None")
    case True
    then have "\<not> path_exists w1 (p @ ''.tmp'')"
      by (simp add: ex)
    moreover have "w1\<lparr>files := (files w)(p @ ''.tmp'' := None)\<rparr> = w1"
      using True m(1) by (simp add: fun_upd_idem)
    ultimately show ?thesis
      unfolding unfold w1_def [symmetric] by simp
  next
    case False
    then have "path_exists w1 (p @ ''.tmp'')"
      by (simp add: ex)
    moreover have "path_unlink (p @ ''.tmp'') w1
                   = (None, w1\<lparr>files := (files w)(p @ ''.tmp'' := None)\<rparr>)"
      using False m(1) by (simp add: path_unlink_def)
    ultimately show ?thesis
      unfolding unfold w1_def [symmetric] by simp
  qed
qed


section \<open>The conversion step of the ENVI driver\<close>










section \<open>Opening the files of the NetCDF driver\<close>



lemma NetCDFCF_open_loop_fields:
  "NetCDFCF_open_loop self prods w = (r, self', w') \<Longrightarrow>
     drv_class self' = drv_class self
     \<and> generate_output_filename self' = generate_output_filename self
     \<and> output_products self' = output_products self"
proof (induction self prods w rule: NetCDFCF_open_loop.induct)
  case (1 self w)
  then show ?case by simp
next
  case (2 self prod_name stat rest w)
  show ?case
  proof (cases "prepare_output_file self stat [] w")
    case (Pair a w1)
    show ?thesis
    proof (cases a)
      case (Inl e)
      then show ?thesis using 2 Pair by simp
    next
      case (Inr output_filename)
      show ?thesis
      proof (cases "create_storage_unit self stat output_filename w1")
        case p2: (Pair b w2)
        show ?thesis
        proof (cases b)
          case (Inl e)
          then show ?thesis using 2 Pair Inr p2 by simp
        next
          case i2: (Inr nco)
          have "NetCDFCF_open_loop
                  (self\<lparr>output_file_handles :=
                     AList.update prod_name (Handle nco) (output_file_handles self)\<rparr>) rest w2
                = (r, self', w')"
            using "2.prems" Pair Inr p2 i2 by simp
          from "2.IH" [OF Pair [symmetric] Inr p2 [symmetric] i2 this]
          show ?thesis by simp
        qed
      qed
    qed
  qed
qed

lemma NetCDFCF_open_loop_append:
  "NetCDFCF_open_loop self (earlier @ later) w =
     (case NetCDFCF_open_loop self earlier w of
        (Some e, self1, w1) \<Rightarrow> (Some e, self1, w1)
      | (None, self1, w1) \<Rightarrow> NetCDFCF_open_loop self1 later w1)"
  by (induction self earlier w rule: NetCDFCF_open_loop.induct)
     (simp_all split: prod.splits sum.splits)





text \<open>
  Claim C3 (amended).  Let the path template of an output product resolve to \<open>p\<close>
  with an extension the driver's class accepts.
  \<^item> If \<open>p\<close> exists, \<^verbatim>\<open>_prepare_output_file\<close> raises
    \<^verbatim>\<open>OutputFileAlreadyExists(p)\<close> and changes nothing.
  \<^item> If \<open>p\<close> does not exist and \<open>p.tmp\<close> is not a directory, it returns
    \<open>p.tmp\<close>; afterwards no file is at \<open>p.tmp\<close> (a stale one is removed), all
    other files are untouched, and a parent directory that exists already is no error
    (nothing is created then).
  \<^item> In the NetCDF driver, when \<^verbatim>\<open>open_output_files\<close> has opened the earlier
    products and reaches a product whose path exists, it raises
    \<^verbatim>\<open>OutputFileAlreadyExists(p)\<close> and leaves the world as the earlier products left
    it: nothing is written for this product.

  The test driver and the xarray driver, whatever their output products and the
  files that exist, open nothing and raise nothing.
\<close>

theorem C3_prepare_output_file:
   "(generate_output_filename self kwargs stat = Inr p
        \<and> path_suffix p \<in> set (valid_extensions (drv_class self))
        \<and> path_exists w p
       \<longrightarrow> prepare_output_file self stat kwargs w = (Inl (OutputFileAlreadyExists p), w))
    \<and> (generate_output_filename self kwargs stat = Inr p
        \<and> path_suffix p \<in> set (valid_extensions (drv_class self))
        \<and> \<not> path_exists w p \<and> p @ ''.tmp'' \<notin> dirs w
       \<longrightarrow> (\<exists>w1. prepare_output_file self stat kwargs w = (Inr (p @ ''.tmp''), w1)
              \<and> files w1 = (files w)(p @ ''.tmp'' := None)
              \<and> opened w1 = opened w \<and> dirs w \<subseteq> dirs w1
              \<and> (is_dir w (path_parent p) \<longrightarrow> dirs w1 = dirs w)))
    \<and> (drv_class self = NetCDFCFOutputDriver
        \<and> generate_output_filename self [] stat = Inr p
        \<and> path_suffix p \<in> set (valid_extensions (drv_class self))
        \<and> output_products self = earlier @ (prod_name, stat) # later
        \<and> NetCDFCF_open_loop self earlier w = (None, self1, w1) \<and> path_exists w1 p
       \<longrightarrow> open_output_files self w = (Some (OutputFileAlreadyExists p), self1, w1))
    \<and> (drv_class self = TestOutputDriver \<or> drv_class self = XarrayOutputDriver
       \<longrightarrow> open_output_files self w = (None, self, w))"
proof -
  have part1: "prepare_output_file self stat kwargs w = (Inl (OutputFileAlreadyExists p), w)"
    if "generate_output_filename self kwargs stat = Inr p"
      "path_suffix p \<in> set (valid_extensions (drv_class self))" "path_exists w p"
    using prepare_exists [OF that] .
  have part2: "\<exists>w1. prepare_output_file self stat kwargs w = (Inr (p @ ''.tmp''), w1)
              \<and> files w1 = (files w)(p @ ''.tmp'' := None)
              \<and> opened w1 = opened w \<and> dirs w \<subseteq> dirs w1
              \<and> (is_dir w (path_parent p) \<longrightarrow> dirs w1 = dirs w)"
    if h: "generate_output_filename self kwargs stat = Inr p"
      "path_suffix p \<in> set (valid_extensions (drv_class self))"
      "\<not> path_exists w p" "p @ ''.tmp'' \<notin> dirs w"
  proof -
    define w0 where "w0 = snd (path_mkdir False (path_parent p) w)"
    have m: "opened w0 = opened w" "dirs w \<subseteq> dirs w0"
      using path_mkdir_facts [of False "path_parent p" w] by (simp_all add: w0_def)
    have d: "is_dir w (path_parent p) \<longrightarrow> dirs w0 = dirs w"
      using path_mkdir_is_dir [of w "path_parent p" False] by (simp add: w0_def)
    have "prepare_output_file self stat kwargs w
          = (Inr (p @ ''.tmp''), w0\<lparr>files := (files w)(p @ ''.tmp'' := None)\<rparr>)"
      using prepare_fresh [OF h] by (simp add: w0_def)
    then show ?thesis
      using m d by simp
  qed
  have part3: "open_output_files self w = (Some (OutputFileAlreadyExists p), self1, w1)"
    if h: "drv_class self = NetCDFCFOutputDriver"
      "generate_output_filename self [] stat = Inr p"
      "path_suffix p \<in> set (valid_extensions (drv_class self))"
      "output_products self = earlier @ (prod_name, stat) # later"
      "NetCDFCF_open_loop self earlier w = (None, self1, w1)" "path_exists w1 p"
  proof -
    have f: "drv_class self1 = drv_class self"
      "generate_output_filename self1 = generate_output_filename self"
      using NetCDFCF_open_loop_fields [OF h(5)] by simp_all
    have "prepare_output_file self1 stat [] w1 = (Inl (OutputFileAlreadyExists p), w1)"
      using prepare_exists [of self1 "[]" stat p w1] h(2,3,6) f by simp
    then have "NetCDFCF_open_loop self1 ((prod_name, stat) # later) w1
               = (Some (OutputFileAlreadyExists p), self1, w1)"
      by simp
    then show ?thesis
      using h(1,4,5)
      by (simp add: open_output_files_def NetCDFCF_open_output_files_def
          NetCDFCF_open_loop_append)
  qed
  have part4: "open_output_files self w = (None, self, w)"
    if "drv_class self = TestOutputDriver \<or> drv_class self = XarrayOutputDriver"
    using that by (auto simp: open_output_files_def)
  have c1: "generate_output_filename self kwargs stat = Inr p
        \<and> path_suffix p \<in> set (valid_extensions (drv_class self))
        \<and> path_exists w p
       \<longrightarrow> prepare_output_file self stat kwargs w = (Inl (OutputFileAlreadyExists p), w)"
    using part1 by (intro impI) (elim conjE)
  have c2: "generate_output_filename self kwargs stat = Inr p
        \<and> path_suffix p \<in> set (valid_extensions (drv_class self))
        \<and> \<not> path_exists w p \<and> p @ ''.tmp'' \<notin> dirs w
       \<longrightarrow> (\<exists>w1. prepare_output_file self stat kwargs w = (Inr (p @ ''.tmp''), w1)
              \<and> files w1 = (files w)(p @ ''.tmp'' := None)
              \<and> opened w1 = opened w \<and> dirs w \<subseteq> dirs w1
              \<and> (is_dir w (path_parent p) \<longrightarrow> dirs w1 = dirs w))"
    using part2 by (intro impI) (elim conjE)
  have c3: "drv_class self = NetCDFCFOutputDriver
        \<and> generate_output_filename self [] stat = Inr p
        \<and> path_suffix p \<in> set (valid_extensions (drv_class self))
        \<and> output_products self = earlier @ (prod_name, stat) # later
        \<and> NetCDFCF_open_loop self earlier w = (None, self1, w1) \<and> path_exists w1 p
       \<longrightarrow> open_output_files self w = (Some (OutputFileAlreadyExists p), self1, w1)"
    using part3 by (intro impI) (elim conjE)
  have c4: "drv_class self = TestOutputDriver \<or> drv_class self = XarrayOutputDriver
       \<longrightarrow> open_output_files self w = (None, self, w)"
    using part4 by (rule impI)
  show ?thesis
    by (rule conjI [OF c1 conjI [OF c2 conjI [OF c3 c4]]])
qed

text \<open>
  Claim C9 (amended).  With no file handles opened, \<^verbatim>\<open>write_data\<close> of the raster
  driver and of the ENVI driver raises \<^verbatim>\<open>StatsOutputError('No files opened for
  writing.')\<close> and writes nothing; \<^verbatim>\<open>write_data\<close> of the test driver and of the
  xarray driver returns normally and writes nothing.
\<close>

theorem C9_write_data_not_open:
  assumes "output_file_handles self = []"
  shows
   "(drv_class self = GeotiffOutputDriver \<or> drv_class self = ENVIBILOutputDriver
       \<longrightarrow> write_data self prod_name measurement_name tile_index values w
             = (Some (StatsOutputError ''No files opened for writing.''), w))
    \<and> (drv_class self = TestOutputDriver \<or> drv_class self = XarrayOutputDriver
       \<longrightarrow> write_data self prod_name measurement_name tile_index values w = (None, w))"
  using assms
  by (auto simp: write_data_def Geotiff_write_data_def OutputDriver_write_data_def)

text \<open>
  The NetCDF driver does not call the base method: with no handles its \<^verbatim>\<open>write_data\<close>
  fails on the dictionary lookup.
\<close>

lemma NetCDFCF_write_data_not_open:
  "output_file_handles self = [] \<Longrightarrow> drv_class self = NetCDFCFOutputDriver \<Longrightarrow>
   write_data self prod_name measurement_name tile_index values w = (Some (KeyError prod_name), w)"
  by (simp add: write_data_def NetCDFCF_write_data_def)

text \<open>
  Claim C6, the behaviour of the code.  For the raster driver (and the ENVI driver,
  which inherits the method) with at least one output product,
  \<^verbatim>\<open>open_output_files\<close> raises \<^verbatim>\<open>UnboundLocalError\<close> in the first iteration, before
  any measurement is looked at and before any file is touched: the first statement of
  the loop body reads \<^verbatim>\<open>output_filename\<close>, which is assigned further down.
\<close>

theorem C6_geotiff_open_unbound_local:
  assumes "drv_class self = GeotiffOutputDriver \<or> drv_class self = ENVIBILOutputDriver"
    and "output_products self \<noteq> []"
  shows "open_output_files self w = (Some (UnboundLocalError ''output_filename''), self, w)"
proof -
  obtain prod_name stat rest where "output_products self = (prod_name, stat) # rest"
    using assms(2) by (cases "output_products self") auto
  then have "Geotiff_open_output_files self w
             = (Some (UnboundLocalError ''output_filename''), self, w)"
    by (simp add: Geotiff_open_output_files_def)
  then show ?thesis
    using assms(1) by (auto simp: open_output_files_def)
qed


section \<open>The theorems on concrete inputs\<close>

text \<open>
  Evaluations on the example inputs.
\<close>

lemma example_gen:
  "generate_output_filename (example_driver cls products hs) kwargs (example_stat template)
   = Inr template"
  by (simp add: example_driver_def example_stat_def literal_template_def)

lemma stats_nc_parts:
  "path_suffix ''/data/out/stats.nc'' = ''.nc''"
  "path_parent ''/data/out/stats.nc'' = ''/data/out''"
  "path_parent ''/data/out/stats.nc.tmp'' = ''/data/out''"
  "path_suffix ''/data/out/counts.nc'' = ''.nc''"
  by (simp_all add: path_suffix_def path_name_def path_parent_def path_dir_def Let_def)

text \<open>
  The NetCDF driver opens the product at \<open>/data/out/stats.nc\<close> when no file is
  there: afterwards \<open>/data/out/stats.nc.tmp\<close> is an empty file with an open handle.
\<close>

lemma example_open_stats:
  assumes "fs ''/data/out/stats.nc'' = None"
  shows "NetCDFCF_open_loop (example_driver NetCDFCFOutputDriver products hs)
           [(''stats'', example_stat ''/data/out/stats.nc'')] (data_world fs {})
   = (None,
      example_driver NetCDFCFOutputDriver products
        (AList.update ''stats'' (Handle ''/data/out/stats.nc.tmp'') hs),
      data_world (fs(''/data/out/stats.nc.tmp'' \<mapsto> [])) {''/data/out/stats.nc.tmp''})"
proof -
  let ?d = "example_driver NetCDFCFOutputDriver products hs"
  let ?s = "example_stat ''/data/out/stats.nc''"
  define wp where "wp = (data_world fs {})\<lparr>files := fs(''/data/out/stats.nc.tmp'' := None)\<rparr>"
  have g: "generate_output_filename ?d [] ?s = Inr ''/data/out/stats.nc''"
    by (rule example_gen)
  have v: "path_suffix ''/data/out/stats.nc'' \<in> set (valid_extensions (drv_class ?d))"
    by (simp add: stats_nc_parts example_driver_def)
  have ne: "\<not> path_exists (data_world fs {}) ''/data/out/stats.nc''"
    using assms by (simp add: path_exists_def data_world_def)
  have nd: "''/data/out/stats.nc'' @ ''.tmp'' \<notin> dirs (data_world fs {})"
    by (simp add: data_world_def)
  have pd: "is_dir (data_world fs {}) ''/data/out''"
    by (simp add: data_world_def is_dir_def)
  have "snd (path_mkdir False (path_parent ''/data/out/stats.nc'') (data_world fs {}))
        = data_world fs {}"
    unfolding stats_nc_parts by (rule path_mkdir_is_dir [OF pd])
  with prepare_fresh [OF g v ne nd]
  have p: "prepare_output_file ?d ?s [] (data_world fs {}) = (Inr ''/data/out/stats.nc.tmp'', wp)"
    by (simp add: wp_def data_world_def)
  have vp: "create_netcdf_var_params ?d = Inr [1, 200, 200]"
    by (simp add: create_netcdf_var_params_def example_driver_def example_storage_def)
  have cf: "create_file ''/data/out/stats.nc.tmp'' wp
            = (Inr ''/data/out/stats.nc.tmp'',
               data_world (fs(''/data/out/stats.nc.tmp'' \<mapsto> [])) {''/data/out/stats.nc.tmp''})"
    by (simp add: create_file_def stats_nc_parts is_dir_def path_exists_def wp_def data_world_def)
  have c: "create_storage_unit ?d ?s ''/data/out/stats.nc.tmp'' wp
           = (Inr ''/data/out/stats.nc.tmp'',
              data_world (fs(''/data/out/stats.nc.tmp'' \<mapsto> [])) {''/data/out/stats.nc.tmp''})"
  proof -
    have "find_source_datasets ?d ?s (''file://'' @ ''/data/out/stats.nc.tmp'') = None"
      by (simp add: example_driver_def)
    then show ?thesis
      by (simp add: create_storage_unit_def as_uri_def vp cf)
  qed
  have "NetCDFCF_open_loop ?d [(''stats'', ?s)] (data_world fs {})
        = (None, ?d\<lparr>output_file_handles :=
                      AList.update ''stats'' (Handle ''/data/out/stats.nc.tmp'')
                        (output_file_handles ?d)\<rparr>,
           data_world (fs(''/data/out/stats.nc.tmp'' \<mapsto> [])) {''/data/out/stats.nc.tmp''})"
    by (simp add: p c)
  then show ?thesis
    by (simp add: example_driver_def)
qed

text \<open>
  Claim C3, witness.  A NetCDF driver has the products \<open>stats\<close> at
  \<open>/data/out/stats.nc\<close> and \<open>counts\<close> at \<open>/data/out/counts.nc\<close>, and the second
  file exists: preparing it raises, and \<^verbatim>\<open>open_output_files\<close> opens the first product
  and raises at the second.  Where only a stale \<open>/data/out/stats.nc.tmp\<close> exists,
  preparing the first product removes it.  The xarray driver with the same products
  opens nothing.
\<close>

theorem C3_prepare_output_file_witness:
  "generate_output_filename
     (example_driver NetCDFCFOutputDriver
        [(''stats'', example_stat ''/data/out/stats.nc''),
         (''counts'', example_stat ''/data/out/counts.nc'')] []) []
     (example_stat ''/data/out/counts.nc'') = Inr ''/data/out/counts.nc''
   \<and> path_suffix ''/data/out/counts.nc'' \<in> set (valid_extensions NetCDFCFOutputDriver)
   \<and> path_exists (data_world [''/data/out/counts.nc'' \<mapsto> []] {}) ''/data/out/counts.nc''
   \<and> prepare_output_file
        (example_driver NetCDFCFOutputDriver
           [(''stats'', example_stat ''/data/out/stats.nc''),
            (''counts'', example_stat ''/data/out/counts.nc'')] [])
        (example_stat ''/data/out/counts.nc'') [] (data_world [''/data/out/counts.nc'' \<mapsto> []] {})
      = (Inl (OutputFileAlreadyExists ''/data/out/counts.nc''),
         data_world [''/data/out/counts.nc'' \<mapsto> []] {})
   \<and> open_output_files
        (example_driver NetCDFCFOutputDriver
           [(''stats'', example_stat ''/data/out/stats.nc''),
            (''counts'', example_stat ''/data/out/counts.nc'')] [])
        (data_world [''/data/out/counts.nc'' \<mapsto> []] {})
      = (Some (OutputFileAlreadyExists ''/data/out/counts.nc''),
         example_driver NetCDFCFOutputDriver
           [(''stats'', example_stat ''/data/out/stats.nc''),
            (''counts'', example_stat ''/data/out/counts.nc'')]
           [(''stats'', Handle ''/data/out/stats.nc.tmp'')],
         data_world [''/data/out/counts.nc'' \<mapsto> [], ''/data/out/stats.nc.tmp'' \<mapsto> []]
           {''/data/out/stats.nc.tmp''})
   \<and> (\<exists>w1. prepare_output_file
        (example_driver NetCDFCFOutputDriver
           [(''stats'', example_stat ''/data/out/stats.nc''),
            (''counts'', example_stat ''/data/out/counts.nc'')] [])
        (example_stat ''/data/out/stats.nc'') []
        (data_world [''/data/out/stats.nc.tmp'' \<mapsto> []] {})
          = (Inr ''/data/out/stats.nc.tmp'', w1)
        \<and> files w1 ''/data/out/stats.nc.tmp'' = None \<and> dirs w1 = {''/data'', ''/data/out''})
   \<and> open_output_files
        (example_driver XarrayOutputDriver
           [(''stats'', example_stat ''/data/out/stats.nc''),
            (''counts'', example_stat ''/data/out/counts.nc'')] [])
        (data_world [''/data/out/counts.nc'' \<mapsto> []] {})
      = (None,
         example_driver XarrayOutputDriver
           [(''stats'', example_stat ''/data/out/stats.nc''),
            (''counts'', example_stat ''/data/out/counts.nc'')] [],
         data_world [''/data/out/counts.nc'' \<mapsto> []] {})"
proof -
  let ?ps = "[(''stats'', example_stat ''/data/out/stats.nc''),
              (''counts'', example_stat ''/data/out/counts.nc'')]"
  let ?d = "example_driver NetCDFCFOutputDriver ?ps []"
  let ?d1 = "example_driver NetCDFCFOutputDriver ?ps [(''stats'', Handle ''/data/out/stats.nc.tmp'')]"
  let ?x = "example_driver XarrayOutputDriver ?ps []"
  let ?w = "data_world [''/data/out/counts.nc'' \<mapsto> []] {}"
  let ?w1 = "data_world [''/data/out/counts.nc'' \<mapsto> [], ''/data/out/stats.nc.tmp'' \<mapsto> []]
               {''/data/out/stats.nc.tmp''}"
  let ?u = "data_world [''/data/out/stats.nc.tmp'' \<mapsto> []] {}"
  have gc: "generate_output_filename ?d [] (example_stat ''/data/out/counts.nc'')
            = Inr ''/data/out/counts.nc''"
    and gs: "generate_output_filename ?d [] (example_stat ''/data/out/stats.nc'')
            = Inr ''/data/out/stats.nc''"
    by (rule example_gen)+
  have vc: "path_suffix ''/data/out/counts.nc'' \<in> set (valid_extensions (drv_class ?d))"
    and vs: "path_suffix ''/data/out/stats.nc'' \<in> set (valid_extensions (drv_class ?d))"
    by (simp_all add: stats_nc_parts example_driver_def)
  have e: "path_exists ?w ''/data/out/counts.nc''"
    and e1: "path_exists ?w1 ''/data/out/counts.nc''"
    by (simp_all add: path_exists_def data_world_def)
  have cn: "drv_class ?d = NetCDFCFOutputDriver"
    and sp: "output_products ?d = [(''stats'', example_stat ''/data/out/stats.nc'')]
                @ (''counts'', example_stat ''/data/out/counts.nc'') # []"
    and cx: "drv_class ?x = TestOutputDriver \<or> drv_class ?x = XarrayOutputDriver"
    by (simp_all add: example_driver_def)
  have l: "NetCDFCF_open_loop ?d [(''stats'', example_stat ''/data/out/stats.nc'')] ?w
           = (None, ?d1, ?w1)"
    using example_open_stats [of "[''/data/out/counts.nc'' \<mapsto> []]" ?ps "[]"] by simp
  note t1 = C3_prepare_output_file [where self = ?d and kwargs = "[]"
      and stat = "example_stat ''/data/out/counts.nc''" and p = "''/data/out/counts.nc''"
      and w = ?w and earlier = "[(''stats'', example_stat ''/data/out/stats.nc'')]"
      and prod_name = "''counts''" and later = "[]" and ?self1.0 = ?d1 and ?w1.0 = ?w1]
  note t2 = C3_prepare_output_file [where self = ?d and kwargs = "[]"
      and stat = "example_stat ''/data/out/stats.nc''" and p = "''/data/out/stats.nc''"
      and w = ?u]
  note t3 = C3_prepare_output_file [where self = ?x and w = ?w]
  have a: "prepare_output_file ?d (example_stat ''/data/out/counts.nc'') [] ?w
           = (Inl (OutputFileAlreadyExists ''/data/out/counts.nc''), ?w)"
    by (rule t1 [THEN conjunct1, THEN mp]) (intro conjI gc vc e)
  have b: "open_output_files ?d ?w = (Some (OutputFileAlreadyExists ''/data/out/counts.nc''), ?d1, ?w1)"
    by (rule t1 [THEN conjunct2, THEN conjunct2, THEN conjunct1, THEN mp])
       (intro conjI cn gc vc sp l e1)
  have ne: "\<not> path_exists ?u ''/data/out/stats.nc''"
    by (simp add: path_exists_def data_world_def)
  have nd: "''/data/out/stats.nc'' @ ''.tmp'' \<notin> dirs ?u"
    and pd: "is_dir ?u (path_parent ''/data/out/stats.nc'')"
    by (simp_all add: data_world_def is_dir_def stats_nc_parts)
  from t2 [THEN conjunct2, THEN conjunct1, THEN mp, OF conjI [OF gs conjI [OF vs conjI [OF ne nd]]]]
  obtain w1 where
    w1: "prepare_output_file ?d (example_stat ''/data/out/stats.nc'') [] ?u
           = (Inr (''/data/out/stats.nc'' @ ''.tmp''), w1)"
      "files w1 = (files ?u)(''/data/out/stats.nc'' @ ''.tmp'' := None)"
      "is_dir ?u (path_parent ''/data/out/stats.nc'') \<longrightarrow> dirs w1 = dirs ?u"
    by blast
  have w1f: "files w1 ''/data/out/stats.nc.tmp'' = None"
    by (simp add: w1(2))
  have w1d: "dirs w1 = {''/data'', ''/data/out''}"
    using w1(3) pd by (simp add: data_world_def)
  have w1p: "prepare_output_file ?d (example_stat ''/data/out/stats.nc'') [] ?u
             = (Inr ''/data/out/stats.nc.tmp'', w1)"
    using w1(1) by simp
  have c: "\<exists>w1. prepare_output_file ?d (example_stat ''/data/out/stats.nc'') [] ?u
             = (Inr ''/data/out/stats.nc.tmp'', w1)
        \<and> files w1 ''/data/out/stats.nc.tmp'' = None \<and> dirs w1 = {''/data'', ''/data/out''}"
    by (rule exI [of _ w1]) (intro conjI w1p w1f w1d)
  have d: "open_output_files ?x ?w = (None, ?x, ?w)"
    by (rule t3 [THEN conjunct2, THEN conjunct2, THEN conjunct2, THEN mp]) (rule cx)
  have v2: "path_suffix ''/data/out/counts.nc'' \<in> set (valid_extensions NetCDFCFOutputDriver)"
    by (simp add: stats_nc_parts)
  show ?thesis
    by (intro conjI gc v2 e a b c d)
qed

text \<open>
  Claim C3, counterexample to the claim as stated.  The test driver has an output
  product whose final path \<open>/data/out/stats.nc\<close> exists; its \<^verbatim>\<open>open_output_files\<close> is
  \<^verbatim>\<open>pass\<close> and returns without an exception.
\<close>

theorem C3_test_driver_counterexample:
  "generate_output_filename
     (example_driver TestOutputDriver [(''stats'', example_stat ''/data/out/stats.nc'')] []) []
     (example_stat ''/data/out/stats.nc'') = Inr ''/data/out/stats.nc''
   \<and> path_exists (data_world [''/data/out/stats.nc'' \<mapsto> []] {}) ''/data/out/stats.nc''
   \<and> open_output_files
        (example_driver TestOutputDriver [(''stats'', example_stat ''/data/out/stats.nc'')] [])
        (data_world [''/data/out/stats.nc'' \<mapsto> []] {})
      = (None, example_driver TestOutputDriver [(''stats'', example_stat ''/data/out/stats.nc'')] [],
         data_world [''/data/out/stats.nc'' \<mapsto> []] {})"
  by (simp add: path_exists_def data_world_def open_output_files_def
      example_driver_def example_stat_def literal_template_def)

text \<open>
  Claim C9, witness: a raster driver with no handles.
\<close>

theorem C9_write_data_not_open_witness:
  "output_file_handles (example_driver GeotiffOutputDriver [] []) = []
   \<and> write_data (example_driver GeotiffOutputDriver [] []) ''stats'' ''mean''
        [(0, 1), (0, 2), (0, 2)] [1, 2, 3, 4] (out_world Map.empty)
      = (Some (StatsOutputError ''No files opened for writing.''), out_world Map.empty)"
  using C9_write_data_not_open [of "example_driver GeotiffOutputDriver [] []" "''stats''" "''mean''"
      "[(0, 1), (0, 2), (0, 2)]" "[1, 2, 3, 4]" "out_world Map.empty"]
  by (simp add: example_driver_def)

text \<open>
  Claim C9, counterexample to the claim as stated.  The test driver has no handles;
  its \<^verbatim>\<open>write_data\<close> is \<^verbatim>\<open>pass\<close> and returns without an exception.
\<close>

theorem C9_test_driver_counterexample:
  "output_file_handles (example_driver TestOutputDriver [] []) = []
   \<and> write_data (example_driver TestOutputDriver [] []) ''stats'' ''mean''
        [(0, 1), (0, 2), (0, 2)] [1, 2, 3, 4] (out_world Map.empty)
      = (None, out_world Map.empty)"
  by (simp add: example_driver_def write_data_def)

text \<open>
  Claim C6, the failing input.  One output product with two measurements of the same
  type \<open>float32\<close> and the same no-data value \<open>-999\<close>, written to one file
  \<open>out/stats.tif\<close>: \<^verbatim>\<open>_get_dtype\<close> and \<^verbatim>\<open>_get_nodata\<close> accept the product, but
  \<^verbatim>\<open>open_output_files\<close> raises \<^verbatim>\<open>UnboundLocalError\<close> instead of opening the file.
\<close>

theorem C6_geotiff_open_unbound_local_witness:
  "output_products (example_driver GeotiffOutputDriver [(''stats'', example_stat ''out/stats.tif'')] [])
     \<noteq> []
   \<and> get_dtype (example_driver GeotiffOutputDriver [(''stats'', example_stat ''out/stats.tif'')] [])
       ''stats'' None = Inr ''float32''
   \<and> get_nodata (example_driver GeotiffOutputDriver [(''stats'', example_stat ''out/stats.tif'')] [])
       ''stats'' None = Inr (- 999)
   \<and> open_output_files
        (example_driver GeotiffOutputDriver [(''stats'', example_stat ''out/stats.tif'')] [])
        (out_world Map.empty)
      = (Some (UnboundLocalError ''output_filename''),
         example_driver GeotiffOutputDriver [(''stats'', example_stat ''out/stats.tif'')] [],
         out_world Map.empty)"
  using C6_geotiff_open_unbound_local
    [of "example_driver GeotiffOutputDriver [(''stats'', example_stat ''out/stats.tif'')] []"
        "out_world Map.empty"]
  by (simp add: example_driver_def example_stat_def get_dtype_def get_nodata_def truthy_def)





end
